theory Spec2Isabelle
  imports Complex_Main
begin

section \<open>Definition crawler of the autocomplete extension (lsp.ts)\<close>

text \<open>
  A shallow embedding of \<^verbatim>\<open>src/extensions/vscode/src/autocomplete/lsp.ts\<close>:
  \<^verbatim>\<open>gotoInputKey\<close>, \<^verbatim>\<open>getDefinitionsForNode\<close> and \<^verbatim>\<open>getDefinitionsFromLsp\<close>.
  JavaScript strings are modelled as \<^typ>\<open>string\<close>, one \<^typ>\<open>char\<close> per code unit
  (code units below 256 only), non-negative numbers as \<^typ>\<open>nat\<close>, a thrown exception or a
  rejected promise as the left injection of a sum.
\<close>

subsection \<open>Strings\<close>

definition nl :: char where
  "nl = CHR 0x0A"

text \<open>\<^verbatim>\<open>s.split("\n")\<close>: the pieces between line feeds; never the empty array.\<close>

fun split_nl :: "string \<Rightarrow> string list" where
  "split_nl [] = [[]]"
| "split_nl (c # cs) =
     (if c = CHR 0x0A then [] # split_nl cs
      else (case split_nl cs of [] \<Rightarrow> [[c]] | l # ls \<Rightarrow> (c # l) # ls))"

text \<open>\<^verbatim>\<open>s.split("\n")[0]\<close>.\<close>

definition first_line :: "string \<Rightarrow> string" where
  "first_line s = (case split_nl s of [] \<Rightarrow> [] | l # _ \<Rightarrow> l)"

text \<open>
  The white space and line terminators \<^verbatim>\<open>String.prototype.trim\<close> strips, among the code
  units below 256: TAB, LF, VT, FF, CR, SP and NBSP.
\<close>

definition is_ws :: "char \<Rightarrow> bool" where
  "is_ws c = (c \<in> set [CHR 0x09, CHR 0x0A, CHR 0x0B, CHR 0x0C, CHR 0x0D, CHR 0x20, CHR 0xA0])"

text \<open>\<^verbatim>\<open>s.trim()\<close> strips both ends.\<close>

definition trim :: "string \<Rightarrow> string" where
  "trim s = rev (dropWhile is_ws (rev (dropWhile is_ws s)))"

text \<open>Stripping the end only: what "trimmed of trailing whitespace" asks for.\<close>

definition trimEnd :: "string \<Rightarrow> string" where
  "trimEnd s = rev (dropWhile is_ws (rev s))"

text \<open>\<^verbatim>\<open>s.slice(0, k)\<close> for a non-negative \<open>k\<close>.\<close>

definition slice0 :: "string \<Rightarrow> nat \<Rightarrow> string" where
  "slice0 s k = take k s"

text \<open>
  A non-negative integer inside a template literal: its decimal digits (numbers below
  \<open>10^21\<close>, which JavaScript prints without an exponent).
\<close>

fun Number_toString :: "nat \<Rightarrow> string" where
  "Number_toString n =
     (if n < 10 then [char_of (48 + n)]
      else Number_toString (n div 10) @ [char_of (48 + n mod 10)])"

declare Number_toString.simps [simp del]

subsection \<open>Resolution queries and their cache key\<close>

datatype GotoProviderName =
    ExecuteDefinitionProvider
  | ExecuteTypeDefinitionProvider
  | ExecuteDeclarationProvider
  | ExecuteImplementationProvider
  | ExecuteReferenceProvider

text \<open>The string each member of the union type \<^verbatim>\<open>GotoProviderName\<close> is.\<close>

fun GotoProviderName_string :: "GotoProviderName \<Rightarrow> string" where
  "GotoProviderName_string ExecuteDefinitionProvider = ''vscode.executeDefinitionProvider''"
| "GotoProviderName_string ExecuteTypeDefinitionProvider = ''vscode.executeTypeDefinitionProvider''"
| "GotoProviderName_string ExecuteDeclarationProvider = ''vscode.executeDeclarationProvider''"
| "GotoProviderName_string ExecuteImplementationProvider = ''vscode.executeImplementationProvider''"
| "GotoProviderName_string ExecuteReferenceProvider = ''vscode.executeReferenceProvider''"

record GotoInput =
  input_uri :: string
  input_line :: nat
  input_character :: nat
  input_name :: GotoProviderName

text \<open>
  \<^verbatim>\<open>input.uri.toString\<close> is written without a call: the expression is the method
  \<^verbatim>\<open>String.prototype.toString\<close> itself, and a template literal prints a built-in function
  as the text below (V8's rendering), whatever string \<^verbatim>\<open>input.uri\<close> is.
\<close>

definition String_prototype_toString_source :: string where
  "String_prototype_toString_source = ''function toString() { [native code] }''"

text \<open>
  \<^verbatim>\<open>`${input.name}${input.uri.toString}${input.line}${input.character}`\<close>: the four parts are
  concatenated with nothing between them.
\<close>

definition gotoInputKey :: "GotoInput \<Rightarrow> string" where
  "gotoInputKey input =
     GotoProviderName_string (input_name input) @ String_prototype_toString_source
       @ Number_toString (input_line input) @ Number_toString (input_character input)"

subsection \<open>Locations, snippets and syntax nodes\<close>

record Position =
  line :: nat
  character :: nat

record Range =
  range_start :: Position
  range_end :: Position

record RangeInFile =
  filepath :: string
  rif_range :: Range

record RangeInFileWithContents = RangeInFile +
  contents :: string

record AutocompleteSnippet = RangeInFileWithContents +
  score :: rat

text \<open>
  An element of \<^verbatim>\<open>ranges: (RangeInFile | RangeInFileWithContents)[]\<close>. The type guard
  \<^verbatim>\<open>isRifWithContents\<close> tells the two members of the union apart: it is the case
  distinction on this type.
\<close>

datatype RangeItem = Rif RangeInFile | RifWithContents RangeInFileWithContents

text \<open>\<^verbatim>\<open>{...rif, contents: c}\<close> on a \<^verbatim>\<open>RangeInFile\<close>.\<close>

definition withContents :: "RangeInFile \<Rightarrow> string \<Rightarrow> RangeInFileWithContents" where
  "withContents rif c = \<lparr>filepath = filepath rif, rif_range = rif_range rif, contents = c\<rparr>"

text \<open>\<^verbatim>\<open>{...result, score: 0.8}\<close>.\<close>

definition withScore :: "RangeInFileWithContents \<Rightarrow> AutocompleteSnippet" where
  "withScore result =
     \<lparr>filepath = filepath result, rif_range = rif_range result, contents = contents result,
      score = 0.8\<rparr>"

text \<open>
  \<^verbatim>\<open>new vscode.Position(l, c)\<close> and \<^verbatim>\<open>new vscode.Range(s, e)\<close> of the editor's library. A
  position holds the two numbers it is given (they are never negative here). A range holds
  the two positions, exchanged unless the first is before the second
  (\<^verbatim>\<open>Position.isBefore\<close>).
\<close>

definition vscode_Position :: "nat \<Rightarrow> nat \<Rightarrow> Position" where
  "vscode_Position l c = \<lparr>line = l, character = c\<rparr>"

definition isBefore :: "Position \<Rightarrow> Position \<Rightarrow> bool" where
  "isBefore a b =
     (if line a < line b then True
      else if line b < line a then False
      else character a < character b)"

definition vscode_Range :: "Position \<Rightarrow> Position \<Rightarrow> Range" where
  "vscode_Range s e =
     (if isBefore s e then \<lparr>range_start = s, range_end = e\<rparr>
      else \<lparr>range_start = e, range_end = s\<rparr>)"

record Point =
  row :: nat
  column :: nat

text \<open>The fields of \<^verbatim>\<open>Parser.SyntaxNode\<close> the code reads; \<^verbatim>\<open>Parser.Tree\<close> with its root.\<close>

datatype SyntaxNode =
  SyntaxNode (node_type: string) (node_text: string) (startIndex: nat)
    (startPosition: Point) (endPosition: Point) (children: "SyntaxNode list")

datatype Parser_Tree = Parser_Tree (rootNode: SyntaxNode)

record AutocompleteLanguageInfo =
  singleLineComment :: string

subsection \<open>Exceptions, effects and the collaborators\<close>

text \<open>
  \<open>TypeError\<close> is what reading a property of \<^verbatim>\<open>undefined\<close> throws; \<open>Thrown\<close> is an
  exception of a collaborator, with its message.
\<close>

datatype error = TypeError | Thrown string

text \<open>
  \<^verbatim>\<open>ide.readRangeInFile\<close> of the \<^verbatim>\<open>IDE\<close> interface. A parameter of type \<^verbatim>\<open>IDE\<close> that the
  caller did not pass is \<^verbatim>\<open>undefined\<close>: \<open>None\<close> of \<open>IDE option\<close>.
\<close>

record IDE =
  readRangeInFile :: "string \<Rightarrow> Range \<Rightarrow> error + string"

text \<open>The calls that leave the module, and the warning of the entry point, in order.\<close>

datatype event =
    GotoProviderCall GotoInput
  | ReadRangeCall string Range
  | CrawlTypesCall RangeInFileWithContents
  | Warn error

text \<open>
  What lsp.ts imports or calls and src/ does not hold, taken as parameters:
  the parser (\<^verbatim>\<open>getAst\<close>, \<^verbatim>\<open>getTreePathAtCursor\<close>, both may answer \<^verbatim>\<open>undefined\<close>), the
  resolver adapter \<^verbatim>\<open>executeGotoProvider\<close>, \<^verbatim>\<open>crawlTypes\<close>, \<^verbatim>\<open>findChildren\<close>
  (node, predicate, firstN) and the two tables of node types.
\<close>

record Env =
  getAst :: "string \<Rightarrow> string \<Rightarrow> error + Parser_Tree option"
  getTreePathAtCursor :: "Parser_Tree \<Rightarrow> int \<Rightarrow> error + SyntaxNode list option"
  executeGotoProvider :: "GotoInput \<Rightarrow> error + RangeInFile list"
  crawlTypes :: "RangeInFileWithContents \<Rightarrow> IDE option \<Rightarrow> error + RangeItem list"
  findChildren :: "SyntaxNode \<Rightarrow> (SyntaxNode \<Rightarrow> bool) \<Rightarrow> nat \<Rightarrow> SyntaxNode list"
  FUNCTION_DECLARATION_NODE_TYPEs :: "string list"
  FUNCTION_BLOCK_NODE_TYPES :: "string list"

text \<open>
  An asynchronous computation: the events it caused, and its exception or its value.
  \<open>bind_exec\<close> is \<^verbatim>\<open>await\<close> followed by the rest of the function body.
\<close>

type_synonym 'a exec = "event list \<times> (error + 'a)"

definition ret :: "'a \<Rightarrow> 'a exec" where
  "ret a = ([], Inr a)"

definition lift :: "error + 'a \<Rightarrow> 'a exec" where
  "lift r = ([], r)"

definition bind_exec :: "'a exec \<Rightarrow> ('a \<Rightarrow> 'b exec) \<Rightarrow> 'b exec" where
  "bind_exec m f =
     (case m of
        (t, Inl e) \<Rightarrow> (t, Inl e)
      | (t, Inr a) \<Rightarrow> (case f a of (t', r) \<Rightarrow> (t @ t', r)))"

text \<open>
  \<^verbatim>\<open>Promise.all(xs.map(async (x) => ...))\<close> where each callback makes at most one call:
  every callback is started, in order, before any is awaited, so all their events
  happen; the whole rejects when one of them does (the model reports the first rejection
  in list order) and otherwise yields the values in order.
\<close>

fun all_settled :: "(error + 'a) list \<Rightarrow> error + 'a list" where
  "all_settled [] = Inr []"
| "all_settled (Inl e # rs) = Inl e"
| "all_settled (Inr a # rs) = (case all_settled rs of Inl e \<Rightarrow> Inl e | Inr as \<Rightarrow> Inr (a # as))"

definition Promise_all :: "'a exec list \<Rightarrow> 'a list exec" where
  "Promise_all ps = (concat (map fst ps), all_settled (map snd ps))"

definition call_executeGotoProvider :: "Env \<Rightarrow> GotoInput \<Rightarrow> RangeInFile list exec" where
  "call_executeGotoProvider env input = ([GotoProviderCall input], executeGotoProvider env input)"

definition call_readRangeInFile :: "IDE option \<Rightarrow> string \<Rightarrow> Range \<Rightarrow> string exec" where
  "call_readRangeInFile ide fp r =
     (case ide of
        None \<Rightarrow> ([], Inl TypeError)
      | Some i \<Rightarrow> ([ReadRangeCall fp r], readRangeInFile i fp r))"

definition call_crawlTypes ::
  "Env \<Rightarrow> RangeInFileWithContents \<Rightarrow> IDE option \<Rightarrow> RangeItem list exec" where
  "call_crawlTypes env rifc ide = ([CrawlTypesCall rifc], crawlTypes env rifc ide)"

subsection \<open>getDefinitionsForNode\<close>

text \<open>
  Lines 48 to 74: the text of a function of more than 15 lines is cut at the start of its
  statement block when the text parses to a function declaration with a block, and to its
  first line otherwise.
\<close>

definition truncateFuncText :: "Env \<Rightarrow> RangeInFile \<Rightarrow> string \<Rightarrow> error + string" where
  "truncateFuncText env funDef funcText =
     (if length (split_nl funcText) > 15 then
        (case getAst env (filepath funDef) funcText of
           Inl e \<Rightarrow> Inl e
         | Inr None \<Rightarrow> Inr (first_line funcText)
         | Inr (Some funRootAst) \<Rightarrow>
             (case findChildren env (rootNode funRootAst)
                     (\<lambda>node. node_type node \<in> set (FUNCTION_DECLARATION_NODE_TYPEs env)) 1 of
                [] \<Rightarrow> Inr (first_line funcText)
              | funNode # _ \<Rightarrow>
                  (case findChildren env funNode
                          (\<lambda>node. node_type node \<in> set (FUNCTION_BLOCK_NODE_TYPES env)) 1 of
                     [] \<Rightarrow> Inr (first_line funcText)
                   | statementBlockNode # _ \<Rightarrow>
                       Inr (trim (slice0 (node_text (rootNode funRootAst))
                                         (startIndex statementBlockNode))))))
      else Inr funcText)"

text \<open>
  Lines 116 to 120: the comment line in front of a class, \<^verbatim>\<open>lang.singleLineComment\<close>
  read only when the class name node has a non-empty text.
\<close>

definition classComment ::
  "AutocompleteLanguageInfo option \<Rightarrow> SyntaxNode option \<Rightarrow> error + string" where
  "classComment lang classNameNode =
     (case classNameNode of
        None \<Rightarrow> Inr []
      | Some c \<Rightarrow>
          (if node_text c \<noteq> [] then
             (case lang of
                None \<Rightarrow> Inl TypeError
              | Some l \<Rightarrow> Inr (singleLineComment l @ '' '' @ node_text c @ '':'' @ [nl]))
           else Inr []))"

text \<open>Lines 131 to 141: the elements without contents are read, the others kept.\<close>

definition resolveRanges :: "IDE option \<Rightarrow> RangeItem list \<Rightarrow> RangeInFileWithContents list exec" where
  "resolveRanges ide ranges =
     Promise_all (map (\<lambda>rif.
        (case rif of
           Rif r \<Rightarrow>
             bind_exec (call_readRangeInFile ide (filepath r) (rif_range r))
               (\<lambda>c. ret (withContents r c))
         | RifWithContents rc \<Rightarrow> ret rc)) ranges)"

text \<open>\<^verbatim>\<open>definitions.filter(Boolean)\<close>: every element is an object, and objects are truthy.\<close>

definition Boolean_of :: "RangeItem \<Rightarrow> bool" where
  "Boolean_of item = True"

definition getDefinitionsForNode ::
  "Env \<Rightarrow> string \<Rightarrow> SyntaxNode \<Rightarrow> IDE option \<Rightarrow> AutocompleteLanguageInfo option
     \<Rightarrow> RangeInFileWithContents list exec" where
  "getDefinitionsForNode env uri node ide lang =
     (if node_type node = ''call_expression'' then
        bind_exec (call_executeGotoProvider env
            \<lparr>input_uri = uri, input_line = row (startPosition node),
             input_character = column (startPosition node),
             input_name = ExecuteDefinitionProvider\<rparr>)
          (\<lambda>defs. case defs of
             [] \<Rightarrow> ret []
           | funDef # _ \<Rightarrow>
               bind_exec (call_readRangeInFile ide (filepath funDef) (rif_range funDef))
                 (\<lambda>funcText0.
               bind_exec (lift (truncateFuncText env funDef funcText0))
                 (\<lambda>funcText.
               bind_exec (call_crawlTypes env (withContents funDef funcText) ide)
                 (\<lambda>typeDefs.
               resolveRanges ide (Rif funDef # typeDefs)))))
      else if node_type node = ''variable_declarator'' then resolveRanges ide []
      else if node_type node = ''impl_item'' then resolveRanges ide []
      else if node_type node = ''new_expression'' then
        (let classNameNode = find (\<lambda>child. node_type child = ''identifier'') (children node);
             target = (case classNameNode of None \<Rightarrow> node | Some c \<Rightarrow> c)
         in bind_exec (call_executeGotoProvider env
              \<lparr>input_uri = uri, input_line = row (endPosition target),
               input_character = column (endPosition target),
               input_name = ExecuteDefinitionProvider\<rparr>)
            (\<lambda>defs. case defs of
               [] \<Rightarrow> resolveRanges ide []
             | classDef # _ \<Rightarrow>
                 bind_exec (call_readRangeInFile ide (filepath classDef) (rif_range classDef))
                   (\<lambda>contents0.
                 bind_exec (lift (classComment lang classNameNode))
                   (\<lambda>comment.
                 bind_exec (call_crawlTypes env (withContents classDef contents0) ide)
                   (\<lambda>definitions.
                 resolveRanges ide
                   (RifWithContents (withContents classDef (comment @ trim contents0))
                      # filter Boolean_of definitions))))))
      else if node_type node = [] then resolveRanges ide []
      else resolveRanges ide [])"

subsection \<open>getDefinitionsFromLsp\<close>

text \<open>Lines 172 to 181: the \<^verbatim>\<open>vscode.Range\<close> built from the four numbers of a range.\<close>

definition vscodeRangeOf :: "Range \<Rightarrow> Range" where
  "vscodeRangeOf r =
     vscode_Range
       (vscode_Position (line (range_start r)) (character (range_start r)))
       (vscode_Position (line (range_end r)) (character (range_end r)))"

text \<open>
  Lines 168 to 183: each definition is read again, at the \<^verbatim>\<open>vscode.Range\<close> of its range;
  the text read replaces its contents, its filepath and range stay.
\<close>

definition rereadDefinition :: "IDE \<Rightarrow> RangeInFileWithContents \<Rightarrow> RangeInFileWithContents exec" where
  "rereadDefinition ide d =
     bind_exec (call_readRangeInFile (Some ide) (filepath d) (vscodeRangeOf (rif_range d)))
       (\<lambda>c. ret (d\<lparr>contents := c\<rparr>))"

text \<open>
  The loop of lines 164 to 186 over the reversed path, \<open>results\<close> being the array it
  pushes to. The call \<^verbatim>\<open>getDefinitionsForNode(filepath, node)\<close> passes two of the four
  parameters; \<open>nodeIde\<close> and \<open>nodeLang\<close> are what the callee receives for the other two.
\<close>

fun collectDefinitions ::
  "Env \<Rightarrow> string \<Rightarrow> IDE option \<Rightarrow> AutocompleteLanguageInfo option \<Rightarrow> IDE
     \<Rightarrow> SyntaxNode list \<Rightarrow> RangeInFileWithContents list \<Rightarrow> RangeInFileWithContents list exec" where
  "collectDefinitions env fp nodeIde nodeLang ide [] results = ret results"
| "collectDefinitions env fp nodeIde nodeLang ide (node # nodes) results =
     bind_exec (getDefinitionsForNode env fp node nodeIde nodeLang)
       (\<lambda>definitions.
     bind_exec (Promise_all (map (rereadDefinition ide) definitions))
       (\<lambda>reread.
     collectDefinitions env fp nodeIde nodeLang ide nodes (results @ reread)))"

text \<open>The body of the \<^verbatim>\<open>try\<close> block, lines 157 to 191.\<close>

definition tryBlock ::
  "IDE option \<Rightarrow> AutocompleteLanguageInfo option \<Rightarrow> Env \<Rightarrow> string \<Rightarrow> string \<Rightarrow> int \<Rightarrow> IDE
     \<Rightarrow> AutocompleteSnippet list exec" where
  "tryBlock nodeIde nodeLang env fp cts cursorIndex ide =
     bind_exec (lift (getAst env fp cts))
       (\<lambda>ast. case ast of
          None \<Rightarrow> ret []
        | Some tree \<Rightarrow>
            bind_exec (lift (getTreePathAtCursor env tree cursorIndex))
              (\<lambda>treePath. case treePath of
                 None \<Rightarrow> ret []
               | Some path \<Rightarrow>
                   bind_exec (collectDefinitions env fp nodeIde nodeLang ide (rev path) [])
                     (\<lambda>results. ret (map withScore results))))"

text \<open>
  The entry point with its \<^verbatim>\<open>catch\<close>: an exception of the body becomes one warning and the
  empty array. The result is the events and the array; there is no exception left to return.
  Of this family only the instance \<open>None None\<close> below is the source. A statement
  about every \<open>nodeIde\<close> and \<open>nodeLang\<close> holds of the source in particular; the
  instance \<open>Some\<close>, \<open>Some\<close> is the source with line 165 repaired, and is evaluated only
  to show that a defect stays when the two arguments are passed.
\<close>

definition getDefinitionsFromLsp_passing ::
  "IDE option \<Rightarrow> AutocompleteLanguageInfo option \<Rightarrow> Env \<Rightarrow> string \<Rightarrow> string \<Rightarrow> int \<Rightarrow> IDE
     \<Rightarrow> event list \<times> AutocompleteSnippet list" where
  "getDefinitionsFromLsp_passing nodeIde nodeLang env fp cts cursorIndex ide =
     (case tryBlock nodeIde nodeLang env fp cts cursorIndex ide of
        (t, Inl e) \<Rightarrow> (t @ [Warn e], [])
      | (t, Inr snippets) \<Rightarrow> (t, snippets))"

text \<open>
  The source as written: the per-node call passes neither \<^verbatim>\<open>ide\<close> nor \<^verbatim>\<open>lang\<close>, so the
  callee's two parameters are \<^verbatim>\<open>undefined\<close>.
\<close>

definition getDefinitionsFromLsp ::
  "Env \<Rightarrow> string \<Rightarrow> string \<Rightarrow> int \<Rightarrow> IDE \<Rightarrow> event list \<times> AutocompleteSnippet list" where
  "getDefinitionsFromLsp env fp cts cursorIndex ide =
     getDefinitionsFromLsp_passing None None env fp cts cursorIndex ide"

subsection \<open>Notions the statements use\<close>

text \<open>Where a snippet points: its filepath and range.\<close>

definition location :: "'a RangeInFile_scheme \<Rightarrow> string \<times> Range" where
  "location r = (filepath r, rif_range r)"

fun is_Warn :: "event \<Rightarrow> bool" where
  "is_Warn (Warn e) = True"
| "is_Warn (GotoProviderCall q) = False"
| "is_Warn (ReadRangeCall fp r) = False"
| "is_Warn (CrawlTypesCall rifc) = False"

subsection \<open>An example workspace\<close>

text \<open>The nodes below a node, in document order.\<close>

fun descendants :: "SyntaxNode \<Rightarrow> SyntaxNode list" where
  "descendants (SyntaxNode ty tx si sp ep cs) = concat (map (\<lambda>c. c # descendants c) cs)"

text \<open>
  Modelled from the spec: \<^verbatim>\<open>findChildren\<close> is not under src/. Section 4.3 has it find
  "the first descendant node whose kind is" one of the wanted kinds: of the descendants
  the predicate accepts, in document order, at most \<open>firstN\<close>. Only the example workspace
  uses it; the model takes \<^verbatim>\<open>findChildren\<close> as a parameter.
\<close>

definition findChildren_spec ::
  "SyntaxNode \<Rightarrow> (SyntaxNode \<Rightarrow> bool) \<Rightarrow> nat \<Rightarrow> SyntaxNode list" where
  "findChildren_spec node p firstN = take firstN (filter p (descendants node))"

definition mkRange :: "nat \<Rightarrow> nat \<Rightarrow> nat \<Rightarrow> nat \<Rightarrow> Range" where
  "mkRange l c l' c' =
     \<lparr>range_start = \<lparr>line = l, character = c\<rparr>, range_end = \<lparr>line = l', character = c'\<rparr>\<rparr>"

definition mkNode ::
  "string \<Rightarrow> string \<Rightarrow> nat \<Rightarrow> nat \<Rightarrow> nat \<Rightarrow> nat \<Rightarrow> nat \<Rightarrow> SyntaxNode list \<Rightarrow> SyntaxNode" where
  "mkNode ty tx si r c r' c' cs =
     SyntaxNode ty tx si \<lparr>row = r, column = c\<rparr> \<lparr>row = r', column = c'\<rparr> cs"

text \<open>
  \<^verbatim>\<open>lib.ts\<close> defines \<^verbatim>\<open>foo\<close> (3 lines, from line 10), \<^verbatim>\<open>bar\<close> (17 lines, from line 20) and
  \<^verbatim>\<open>baz\<close> (17 lines, from line 40); \<^verbatim>\<open>widget.ts\<close> the class \<^verbatim>\<open>Widget\<close>, \<^verbatim>\<open>color.ts\<close> the enum
  \<^verbatim>\<open>Color\<close>.
\<close>

definition foo_def :: RangeInFile where
  "foo_def = \<lparr>filepath = ''lib.ts'', rif_range = mkRange 10 0 12 1\<rparr>"

definition foo_text :: string where
  "foo_text = ''function foo(a, b) {'' @ [nl] @ ''  return a + b;'' @ [nl] @ ''}''"

definition bar_def :: RangeInFile where
  "bar_def = \<lparr>filepath = ''lib.ts'', rif_range = mkRange 20 0 36 1\<rparr>"

definition bar_text :: string where
  "bar_text = ''function bar(a) {'' @ concat (replicate 15 (nl # ''  a++;'')) @ [nl] @ ''}''"

definition baz_def :: RangeInFile where
  "baz_def = \<lparr>filepath = ''lib.ts'', rif_range = mkRange 40 0 56 1\<rparr>"

definition baz_text :: string where
  "baz_text = ''function baz(a) {'' @ concat (replicate 15 (nl # ''  a--;'')) @ [nl] @ ''}''"

definition Widget_def :: RangeInFile where
  "Widget_def = \<lparr>filepath = ''widget.ts'', rif_range = mkRange 0 0 2 1\<rparr>"

definition Widget_text :: string where
  "Widget_text = ''class Widget {'' @ [nl] @ ''  color: Color;'' @ [nl] @ ''}''"

definition Color_def :: RangeInFile where
  "Color_def = \<lparr>filepath = ''color.ts'', rif_range = mkRange 0 0 2 1\<rparr>"

definition Color_text :: string where
  "Color_text = ''enum Color {'' @ [nl] @ ''  Red, Green'' @ [nl] @ ''}''"

text \<open>The file being edited, \<^verbatim>\<open>main.ts\<close>, and the nodes of its tree the cursor can be in.\<close>

definition main_text :: string where
  "main_text =
     ''foo(foo(1, 2), 3);'' @ [nl] @ ''bar(4);'' @ [nl] @ ''baz(5);'' @ [nl] @ ''new Widget();''"

definition call_inner :: SyntaxNode where
  "call_inner = mkNode ''call_expression'' ''foo(1, 2)'' 4 0 4 0 13 []"

definition call_outer :: SyntaxNode where
  "call_outer = mkNode ''call_expression'' ''foo(foo(1, 2), 3)'' 0 0 0 0 17 [call_inner]"

definition call_bar :: SyntaxNode where
  "call_bar = mkNode ''call_expression'' ''bar(4)'' 19 1 0 1 6 []"

definition call_baz :: SyntaxNode where
  "call_baz = mkNode ''call_expression'' ''baz(5)'' 27 2 0 2 6 []"

definition new_Widget :: SyntaxNode where
  "new_Widget = mkNode ''new_expression'' ''new Widget()'' 35 3 0 3 12
     [mkNode ''identifier'' ''Widget'' 39 3 4 3 10 [],
      mkNode ''arguments'' ''()'' 45 3 10 3 12 []]"

definition main_root :: SyntaxNode where
  "main_root =
     mkNode ''program'' main_text 0 0 0 3 13 [call_outer, call_bar, call_baz, new_Widget]"

text \<open>The tree the text of \<^verbatim>\<open>bar\<close> parses to; its statement block starts at offset 16.\<close>

definition bar_root :: SyntaxNode where
  "bar_root = mkNode ''program'' bar_text 0 0 0 16 1
     [mkNode ''function_declaration'' bar_text 0 0 0 16 1
        [mkNode ''identifier'' ''bar'' 9 0 9 0 12 [],
         mkNode ''formal_parameters'' ''(a)'' 12 0 12 0 15 [],
         mkNode ''statement_block'' (drop 16 bar_text) 16 0 16 16 1 []]]"

definition demo_ide :: IDE where
  "demo_ide = \<lparr>readRangeInFile = (\<lambda>fp r.
     if fp = ''lib.ts'' \<and> line (range_start r) = 10 then Inr foo_text
     else if fp = ''lib.ts'' \<and> line (range_start r) = 20 then Inr bar_text
     else if fp = ''lib.ts'' \<and> line (range_start r) = 40 then Inr baz_text
     else if fp = ''widget.ts'' then Inr Widget_text
     else if fp = ''color.ts'' then Inr Color_text
     else Inl (Thrown ''no such file''))\<rparr>"

definition demo_lang :: AutocompleteLanguageInfo where
  "demo_lang = \<lparr>singleLineComment = ''//''\<rparr>"

text \<open>
  The parser knows \<^verbatim>\<open>main.ts\<close> and the text of \<^verbatim>\<open>bar\<close>, and nothing else (the text of
  \<^verbatim>\<open>baz\<close> does not parse). The resolver answers by the line of the query; the type crawler
  finds \<^verbatim>\<open>Color\<close> in \<^verbatim>\<open>widget.ts\<close>.
\<close>

definition demo_env :: Env where
  "demo_env = \<lparr>
     getAst = (\<lambda>fp cts.
        if fp = ''main.ts'' then Inr (Some (Parser_Tree main_root))
        else if cts = bar_text then Inr (Some (Parser_Tree bar_root))
        else Inr None),
     getTreePathAtCursor = (\<lambda>tree cursorIndex.
        if cursorIndex = 6 then Inr (Some [main_root, call_outer, call_inner])
        else if cursorIndex = 21 then Inr (Some [main_root, call_bar])
        else if cursorIndex = 29 then Inr (Some [main_root, call_baz])
        else if cursorIndex = 41 then Inr (Some [main_root, new_Widget])
        else if cursorIndex = 18 then Inr (Some [])
        else Inr None),
     executeGotoProvider = (\<lambda>q.
        if input_line q = 0 then Inr [foo_def]
        else if input_line q = 1 then Inr [bar_def]
        else if input_line q = 2 then Inr [baz_def]
        else if input_line q = 3 \<and> input_character q = 10 then Inr [Widget_def]
        else Inr []),
     crawlTypes = (\<lambda>rifc ide.
        if filepath rifc = ''widget.ts'' then Inr [Rif Color_def] else Inr []),
     findChildren = findChildren_spec,
     FUNCTION_DECLARATION_NODE_TYPEs =
       [''method_definition'', ''function_definition'', ''function_item'',
        ''function_declaration'', ''method_declaration''],
     FUNCTION_BLOCK_NODE_TYPES = [''block'', ''statement_block'']\<rparr>"

text \<open>The same workspace with a resolver that throws on every query.\<close>

definition throwing_env :: Env where
  "throwing_env = demo_env\<lparr>executeGotoProvider := (\<lambda>q. Inl (Thrown ''provider down''))\<rparr>"

section \<open>Properties\<close>

subsection \<open>Strings, awaiting and Promise.all\<close>

lemma split_nl_nonempty: "split_nl s \<noteq> []"
  by (induction s) (auto split: list.splits)

lemma snd_bind_exec:
  "snd (bind_exec m f) = (case snd m of Inl e \<Rightarrow> Inl e | Inr a \<Rightarrow> snd (f a))"
  by (cases m) (auto simp: bind_exec_def split: sum.splits prod.splits)

lemma fst_bind_exec:
  "fst (bind_exec m f) = (case snd m of Inl e \<Rightarrow> fst m | Inr a \<Rightarrow> fst m @ fst (f a))"
  by (cases m) (auto simp: bind_exec_def split: sum.splits prod.splits)

lemma all_settled_map_Inr: "all_settled (map Inr xs) = Inr xs"
  by (induction xs) auto

lemma all_settled_InrD: "all_settled rs = Inr xs \<Longrightarrow> rs = map Inr xs"
proof (induction rs arbitrary: xs)
  case Nil
  then show ?case by auto
next
  case (Cons r rs)
  show ?case
  proof (cases r)
    case (Inl e)
    with Cons.prems show ?thesis by simp
  next
    case (Inr a)
    with Cons.prems obtain ys where ys: "all_settled rs = Inr ys" and xs: "xs = a # ys"
      by (auto split: sum.splits)
    from Cons.IH [OF ys] xs Inr show ?thesis by simp
  qed
qed

lemma all_settled_Inr_iff: "all_settled rs = Inr xs \<longleftrightarrow> rs = map Inr xs"
  using all_settled_InrD all_settled_map_Inr by blast

lemma snd_Promise_all: "snd (Promise_all ps) = all_settled (map snd ps)"
  by (simp add: Promise_all_def)

lemma fst_Promise_all: "fst (Promise_all ps) = concat (map fst ps)"
  by (simp add: Promise_all_def)

subsection \<open>The cache key\<close>

lemma gotoInputKey_ignores_uri:
  "gotoInputKey (input\<lparr>input_uri := u\<rparr>) = gotoInputKey input"
  by (simp add: gotoInputKey_def)

lemma gotoInputKey_cong:
  "input_name a = input_name b \<Longrightarrow> input_line a = input_line b
   \<Longrightarrow> input_character a = input_character b \<Longrightarrow> gotoInputKey a = gotoInputKey b"
  by (simp add: gotoInputKey_def)

text \<open>
  Claim C3, evaluated at its failing input. Two definition queries at line 1, column 2 of
  the files \<^verbatim>\<open>a.ts\<close> and \<^verbatim>\<open>b.ts\<close> differ in their filepath and get the same cache key:
  the key holds the text of the \<^verbatim>\<open>toString\<close> method where the filepath was meant.
  Two queries in one file at line 1, column 23 and at line 12, column 3 get the same key
  as well, since the line and the column are concatenated with no separator.
\<close>

theorem gotoInputKey_collides:
  "gotoInputKey \<lparr>input_uri = ''a.ts'', input_line = 1, input_character = 2,
                   input_name = ExecuteDefinitionProvider\<rparr>
     = ''vscode.executeDefinitionProviderfunction toString() { [native code] }12''
   \<and> gotoInputKey \<lparr>input_uri = ''b.ts'', input_line = 1, input_character = 2,
                     input_name = ExecuteDefinitionProvider\<rparr>
     = ''vscode.executeDefinitionProviderfunction toString() { [native code] }12''
   \<and> ''a.ts'' \<noteq> ''b.ts''
   \<and> gotoInputKey \<lparr>input_uri = ''a.ts'', input_line = 1, input_character = 23,
                     input_name = ExecuteDefinitionProvider\<rparr>
     = gotoInputKey \<lparr>input_uri = ''a.ts'', input_line = 12, input_character = 3,
                       input_name = ExecuteDefinitionProvider\<rparr>"
  by code_simp

subsection \<open>The per-node step on a call expression\<close>

lemma truncateFuncText_short:
  "length (split_nl funcText) \<le> 15 \<Longrightarrow> truncateFuncText env funDef funcText = Inr funcText"
  by (simp add: truncateFuncText_def)

text \<open>
  What lines 48 to 74 compute: the text up to the statement block, trimmed at both ends,
  when the text parses to a function declaration with a block; the first line when it
  does not.
\<close>

lemma truncateFuncText_parsed:
  assumes "15 < length (split_nl funcText)"
      and "getAst env (filepath funDef) funcText = Inr (Some funRootAst)"
      and "findChildren env (rootNode funRootAst)
             (\<lambda>node. node_type node \<in> set (FUNCTION_DECLARATION_NODE_TYPEs env)) 1
           = funNode # fs"
      and "findChildren env funNode
             (\<lambda>node. node_type node \<in> set (FUNCTION_BLOCK_NODE_TYPES env)) 1
           = statementBlockNode # bs"
  shows "truncateFuncText env funDef funcText =
           Inr (trim (slice0 (node_text (rootNode funRootAst)) (startIndex statementBlockNode)))"
  using assms by (simp add: truncateFuncText_def)

lemma truncateFuncText_unparsed:
  assumes "15 < length (split_nl funcText)"
      and "getAst env (filepath funDef) funcText = Inr None"
  shows "truncateFuncText env funDef funcText = Inr (first_line funcText)"
  using assms by (simp add: truncateFuncText_def)

lemma trim_both_ends:
  "trim ''  f(x) '' = ''f(x)'' \<and> trimEnd ''  f(x) '' = ''  f(x)'' \<and> trim '' '' = []"
  by code_simp

lemma snd_resolveRanges_Nil [simp]: "snd (resolveRanges ide []) = Inr []"
  by (simp add: resolveRanges_def snd_Promise_all)

lemma snd_resolveRanges_Rif:
  "snd (resolveRanges (Some ide) (Rif r # items)) =
     (case readRangeInFile ide (filepath r) (rif_range r) of
        Inl e \<Rightarrow> Inl e
      | Inr c \<Rightarrow> (case snd (resolveRanges (Some ide) items) of
                    Inl e \<Rightarrow> Inl e | Inr rest \<Rightarrow> Inr (withContents r c # rest)))"
  by (simp add: resolveRanges_def snd_Promise_all snd_bind_exec call_readRangeInFile_def ret_def
      split: sum.splits)

text \<open>
  Line 76 pushes \<^verbatim>\<open>funDef\<close>, which carries no contents, and lines 131 to 141 read it
  again: whatever the length of the text and whatever lines 48 to 74 made of it, the
  snippet of the function holds the text as the file-content provider gives it. The
  shortened text \<open>shown\<close> only goes to \<^verbatim>\<open>crawlTypes\<close>.
\<close>

lemma call_expression_snippet:
  assumes "node_type node = ''call_expression''"
      and "executeGotoProvider env
             \<lparr>input_uri = uri, input_line = row (startPosition node),
              input_character = column (startPosition node),
              input_name = ExecuteDefinitionProvider\<rparr> = Inr (funDef # others)"
      and "readRangeInFile ide (filepath funDef) (rif_range funDef) = Inr funcText"
      and "truncateFuncText env funDef funcText = Inr shown"
      and "crawlTypes env (withContents funDef shown) (Some ide) = Inr typeDefs"
      and "snd (resolveRanges (Some ide) typeDefs) = Inr rest"
  shows "snd (getDefinitionsForNode env uri node (Some ide) lang)
           = Inr (withContents funDef funcText # rest)"
  using assms
  by (simp add: getDefinitionsForNode_def snd_bind_exec call_executeGotoProvider_def
      call_readRangeInFile_def call_crawlTypes_def lift_def snd_resolveRanges_Rif)

text \<open>
  Claim C6. For a call-expression node whose definition resolves to \<open>funDef\<close> and whose
  text \<open>funcText\<close>, as the file-content provider reads it, has at most 15 lines, the
  per-node step returns, first, the snippet of \<open>funDef\<close> with contents \<open>funcText\<close>
  unchanged, at the range of \<open>funDef\<close> (provided the type crawl and the reads of the types
  it found do not raise; \<open>rest\<close> are the snippets of those types).
\<close>

theorem short_function_verbatim:
  assumes "node_type node = ''call_expression''"
      and "executeGotoProvider env
             \<lparr>input_uri = uri, input_line = row (startPosition node),
              input_character = column (startPosition node),
              input_name = ExecuteDefinitionProvider\<rparr> = Inr (funDef # others)"
      and "readRangeInFile ide (filepath funDef) (rif_range funDef) = Inr funcText"
      and "length (split_nl funcText) \<le> 15"
      and "crawlTypes env (withContents funDef funcText) (Some ide) = Inr typeDefs"
      and "snd (resolveRanges (Some ide) typeDefs) = Inr rest"
  shows "snd (getDefinitionsForNode env uri node (Some ide) lang)
           = Inr (withContents funDef funcText # rest)
         \<and> contents (withContents funDef funcText) = funcText
         \<and> location (withContents funDef funcText) = location funDef"
  using call_expression_snippet [OF assms(1-3) truncateFuncText_short [OF assms(4)] assms(5,6)]
  by (simp add: withContents_def location_def)

lemma demo_call_inner:
  "getDefinitionsForNode demo_env ''main.ts'' call_inner (Some demo_ide) (Some demo_lang)
   = ([GotoProviderCall \<lparr>input_uri = ''main.ts'', input_line = 0, input_character = 4,
                          input_name = ExecuteDefinitionProvider\<rparr>,
       ReadRangeCall ''lib.ts'' (mkRange 10 0 12 1),
       CrawlTypesCall (withContents foo_def foo_text),
       ReadRangeCall ''lib.ts'' (mkRange 10 0 12 1)],
      Inr [withContents foo_def foo_text])"
  by code_simp

text \<open>
  The theorem at the call \<^verbatim>\<open>foo(1, 2)\<close> of the example workspace: \<^verbatim>\<open>foo\<close> has 3 lines and
  no type references, and the step returns its text verbatim.
\<close>

theorem short_function_verbatim_witness:
  "node_type call_inner = ''call_expression''
   \<and> length (split_nl foo_text) = 3
   \<and> snd (getDefinitionsForNode demo_env ''main.ts'' call_inner (Some demo_ide) (Some demo_lang))
       = Inr [withContents foo_def foo_text]
   \<and> contents (withContents foo_def foo_text) = foo_text"
proof -
  have 1: "node_type call_inner = ''call_expression''" by code_simp
  have 2: "executeGotoProvider demo_env
             \<lparr>input_uri = ''main.ts'', input_line = row (startPosition call_inner),
              input_character = column (startPosition call_inner),
              input_name = ExecuteDefinitionProvider\<rparr> = Inr (foo_def # [])" by code_simp
  have 3: "readRangeInFile demo_ide (filepath foo_def) (rif_range foo_def) = Inr foo_text"
    by code_simp
  have n: "length (split_nl foo_text) = 3" by code_simp
  then have 4: "length (split_nl foo_text) \<le> 15" by simp
  have 5: "crawlTypes demo_env (withContents foo_def foo_text) (Some demo_ide) = Inr []"
    by code_simp
  have 6: "snd (resolveRanges (Some demo_ide) []) = Inr []" by simp
  from short_function_verbatim [OF 1 2 3 4 5 6, of "Some demo_lang"] 1 n show ?thesis by simp
qed

text \<open>
  Claim C2, evaluated at its failing input. The call \<^verbatim>\<open>bar(4)\<close> resolves to a function of
  17 lines whose text parses to a function declaration with a statement block at offset
  16. Lines 48 to 74 compute the signature \<^verbatim>\<open>function bar(a)\<close>, yet the snippet the
  per-node step returns for \<^verbatim>\<open>bar\<close> holds all 17 lines: line 76 pushes the definition
  without the shortened text, and lines 131 to 141 read the whole range again.
\<close>

theorem long_function_shown_in_full:
  "length (split_nl bar_text) = 17
   \<and> truncateFuncText demo_env bar_def bar_text = Inr ''function bar(a)''
   \<and> snd (getDefinitionsForNode demo_env ''main.ts'' call_bar (Some demo_ide) (Some demo_lang))
       = Inr [withContents bar_def bar_text]
   \<and> contents (withContents bar_def bar_text) \<noteq> ''function bar(a)''"
  by code_simp

text \<open>
  Claim C7, evaluated at its failing input. The call \<^verbatim>\<open>baz(5)\<close> resolves to a function of
  17 lines whose text the parser gives no tree for. Lines 71 to 73 fall back to the first
  line, \<^verbatim>\<open>function baz(a) {\<close>, yet the snippet the per-node step returns for \<^verbatim>\<open>baz\<close>
  holds all 17 lines, for the same reason as in C2.
\<close>

theorem unparsed_function_shown_in_full:
  "length (split_nl baz_text) = 17
   \<and> getAst demo_env (filepath baz_def) baz_text = Inr None
   \<and> truncateFuncText demo_env baz_def baz_text = Inr ''function baz(a) {''
   \<and> first_line baz_text = ''function baz(a) {''
   \<and> snd (getDefinitionsForNode demo_env ''main.ts'' call_baz (Some demo_ide) (Some demo_lang))
       = Inr [withContents baz_def baz_text]
   \<and> contents (withContents baz_def baz_text) \<noteq> first_line baz_text"
  by code_simp

subsection \<open>The try block and its catch\<close>

lemma tryBlock_path:
  assumes "getAst env fp cts = Inr (Some tree)"
      and "getTreePathAtCursor env tree cursorIndex = Inr (Some path)"
  shows "snd (tryBlock ni nla env fp cts cursorIndex ide) =
           (case snd (collectDefinitions env fp ni nla ide (rev path) []) of
              Inl e \<Rightarrow> Inl e | Inr results \<Rightarrow> Inr (map withScore results))"
  using assms by (simp add: tryBlock_def snd_bind_exec lift_def ret_def split: sum.splits)

lemma snd_getDefinitionsFromLsp_passing:
  "snd (getDefinitionsFromLsp_passing ni nla env fp cts cursorIndex ide) =
     (case snd (tryBlock ni nla env fp cts cursorIndex ide) of Inl e \<Rightarrow> [] | Inr snippets \<Rightarrow> snippets)"
  by (simp add: getDefinitionsFromLsp_passing_def split: prod.splits sum.splits)

lemma fst_getDefinitionsFromLsp_passing:
  "fst (getDefinitionsFromLsp_passing ni nla env fp cts cursorIndex ide) =
     (case snd (tryBlock ni nla env fp cts cursorIndex ide) of
        Inl e \<Rightarrow> fst (tryBlock ni nla env fp cts cursorIndex ide) @ [Warn e]
      | Inr snippets \<Rightarrow> fst (tryBlock ni nla env fp cts cursorIndex ide))"
  by (simp add: getDefinitionsFromLsp_passing_def split: prod.splits sum.splits)

lemma demo_ast: "getAst demo_env ''main.ts'' main_text = Inr (Some (Parser_Tree main_root))"
  by code_simp

subsection \<open>No tree, no path\<close>

text \<open>
  Claim C8. When the parser returns no tree, or the path at the cursor is absent or
  empty, the entry point returns the empty sequence and causes no event: no query to the
  resolver, no read, no type crawl, no warning.
\<close>

theorem no_tree_no_path_nothing_done:
  assumes "getAst env fp cts = Inr None
           \<or> (getAst env fp cts = Inr (Some tree)
               \<and> (getTreePathAtCursor env tree cursorIndex = Inr None
                   \<or> getTreePathAtCursor env tree cursorIndex = Inr (Some [])))"
  shows "getDefinitionsFromLsp_passing nodeIde nodeLang env fp cts cursorIndex ide = ([], [])"
  using assms
  by (auto simp: getDefinitionsFromLsp_passing_def tryBlock_def bind_exec_def lift_def ret_def)

text \<open>
  The theorem on a file the parser has no grammar for, on a cursor with an empty path
  and on a cursor with no path.
\<close>

theorem no_tree_no_path_nothing_done_witness:
  "getAst demo_env ''notes.txt'' main_text = Inr None
   \<and> getDefinitionsFromLsp demo_env ''notes.txt'' main_text 6 demo_ide = ([], [])
   \<and> getTreePathAtCursor demo_env (Parser_Tree main_root) 18 = Inr (Some [])
   \<and> getDefinitionsFromLsp demo_env ''main.ts'' main_text 18 demo_ide = ([], [])
   \<and> getTreePathAtCursor demo_env (Parser_Tree main_root) 99 = Inr None
   \<and> getDefinitionsFromLsp demo_env ''main.ts'' main_text 99 demo_ide = ([], [])"
proof -
  have 1: "getAst demo_env ''notes.txt'' main_text = Inr None" by code_simp
  have 2: "getTreePathAtCursor demo_env (Parser_Tree main_root) 18 = Inr (Some [])" by code_simp
  have 3: "getTreePathAtCursor demo_env (Parser_Tree main_root) 99 = Inr None" by code_simp
  from 1 have a: "getDefinitionsFromLsp demo_env ''notes.txt'' main_text 6 demo_ide = ([], [])"
    unfolding getDefinitionsFromLsp_def by (intro no_tree_no_path_nothing_done) simp
  from demo_ast 2 have b: "getDefinitionsFromLsp demo_env ''main.ts'' main_text 18 demo_ide = ([], [])"
    unfolding getDefinitionsFromLsp_def
    by (intro no_tree_no_path_nothing_done [where tree = "Parser_Tree main_root"]) simp
  from demo_ast 3 have c: "getDefinitionsFromLsp demo_env ''main.ts'' main_text 99 demo_ide = ([], [])"
    unfolding getDefinitionsFromLsp_def
    by (intro no_tree_no_path_nothing_done [where tree = "Parser_Tree main_root"]) simp
  from 1 2 3 a b c show ?thesis by simp
qed

subsection \<open>Exceptions never leave the entry point\<close>

lemma nw_bind_exec:
  assumes "filter is_Warn (fst m) = []" and "\<And>a. filter is_Warn (fst (f a)) = []"
  shows "filter is_Warn (fst (bind_exec m f)) = []"
  using assms by (simp add: fst_bind_exec split: sum.splits)

lemma nw_ret [simp]: "filter is_Warn (fst (ret a)) = []"
  by (simp add: ret_def)

lemma nw_lift [simp]: "filter is_Warn (fst (lift r)) = []"
  by (simp add: lift_def)

lemma nw_call_executeGotoProvider [simp]:
  "filter is_Warn (fst (call_executeGotoProvider env q)) = []"
  by (simp add: call_executeGotoProvider_def)

lemma nw_call_readRangeInFile [simp]:
  "filter is_Warn (fst (call_readRangeInFile ide fp r)) = []"
  by (simp add: call_readRangeInFile_def split: option.splits)

lemma nw_call_crawlTypes [simp]:
  "filter is_Warn (fst (call_crawlTypes env rifc ide)) = []"
  by (simp add: call_crawlTypes_def)

lemma nw_Promise_all_map:
  assumes "\<And>x. filter is_Warn (fst (f x)) = []"
  shows "filter is_Warn (fst (Promise_all (map f xs))) = []"
  using assms by (induction xs) (auto simp: fst_Promise_all)

lemma nw_resolveRanges [simp]: "filter is_Warn (fst (resolveRanges ide ranges)) = []"
  unfolding resolveRanges_def
  by (rule nw_Promise_all_map) (auto intro!: nw_bind_exec split: RangeItem.splits)

lemma nw_getDefinitionsForNode [simp]:
  "filter is_Warn (fst (getDefinitionsForNode env uri node ide lang)) = []"
  unfolding getDefinitionsForNode_def Let_def
  by (auto intro!: nw_bind_exec split: list.splits)

lemma nw_rereadDefinition [simp]: "filter is_Warn (fst (rereadDefinition ide d)) = []"
  unfolding rereadDefinition_def by (auto intro!: nw_bind_exec)

lemma nw_collectDefinitions [simp]:
  "filter is_Warn (fst (collectDefinitions env fp ni nla ide nodes acc)) = []"
proof (induction nodes arbitrary: acc)
  case Nil
  show ?case by simp
next
  case (Cons node nodes)
  show ?case
    by (auto intro!: nw_bind_exec nw_Promise_all_map simp: Cons.IH)
qed

lemma nw_tryBlock [simp]:
  "filter is_Warn (fst (tryBlock ni nla env fp cts cursorIndex ide)) = []"
  unfolding tryBlock_def
  by (auto intro!: nw_bind_exec split: option.splits)

text \<open>A per-node step that never yields a definition leaves the loop's array as it was.\<close>

lemma collectDefinitions_nothing:
  assumes "\<And>node ds. snd (getDefinitionsForNode env fp node ni nla) = Inr ds \<Longrightarrow> ds = []"
      and "snd (collectDefinitions env fp ni nla ide nodes acc) = Inr rs"
  shows "rs = acc"
  using assms(2)
proof (induction nodes arbitrary: acc)
  case Nil
  then show ?case by (simp add: ret_def)
next
  case (Cons node nodes)
  from Cons.prems obtain defs where defs: "snd (getDefinitionsForNode env fp node ni nla) = Inr defs"
    by (auto simp: snd_bind_exec split: sum.splits)
  with assms(1) have "defs = []" by blast
  with defs Cons.prems have "snd (collectDefinitions env fp ni nla ide nodes acc) = Inr rs"
    by (simp add: snd_bind_exec snd_Promise_all)
  from Cons.IH [OF this] show ?case .
qed

lemma entry_nothing:
  assumes "\<And>node ds. snd (getDefinitionsForNode env fp node ni nla) = Inr ds \<Longrightarrow> ds = []"
  shows "snd (getDefinitionsFromLsp_passing ni nla env fp cts cursorIndex ide) = []"
proof (cases "snd (tryBlock ni nla env fp cts cursorIndex ide)")
  case (Inl e)
  then show ?thesis by (simp add: snd_getDefinitionsFromLsp_passing)
next
  case (Inr snippets)
  have "snippets = []"
  proof (cases "getAst env fp cts")
    case (Inl e)
    with Inr show ?thesis by (simp add: tryBlock_def snd_bind_exec lift_def)
  next
    case ast: (Inr ast)
    show ?thesis
    proof (cases ast)
      case None
      with ast Inr show ?thesis by (simp add: tryBlock_def snd_bind_exec lift_def ret_def)
    next
      case (Some tree)
      show ?thesis
      proof (cases "getTreePathAtCursor env tree cursorIndex")
        case (Inl e)
        with ast Some Inr show ?thesis by (simp add: tryBlock_def snd_bind_exec lift_def)
      next
        case tp: (Inr treePath)
        show ?thesis
        proof (cases treePath)
          case None
          with ast Some tp Inr show ?thesis
            by (simp add: tryBlock_def snd_bind_exec lift_def ret_def)
        next
          case path: (Some path)
          from Inr ast Some tp path obtain results where
            r: "snd (collectDefinitions env fp ni nla ide (rev path) []) = Inr results"
            and s: "snippets = map withScore results"
            by (auto simp: tryBlock_path split: sum.splits)
          from collectDefinitions_nothing [OF assms r] s show ?thesis by simp
        qed
      qed
    qed
  qed
  with Inr show ?thesis by (simp add: snd_getDefinitionsFromLsp_passing)
qed

lemma getDefinitionsForNode_provider_throws:
  assumes "\<And>q. executeGotoProvider env q = Inl e0"
      and "snd (getDefinitionsForNode env fp node ni nla) = Inr ds"
  shows "ds = []"
  using assms
  by (auto simp: getDefinitionsForNode_def Let_def snd_bind_exec call_executeGotoProvider_def
      split: if_splits)

text \<open>
  Claim C1. The entry point returns a pair of events and snippets for every input; it has
  no exceptional result. When the try block raises \<open>e\<close>, whatever raised it, the entry
  point returns the empty sequence and logs exactly one warning, \<open>Warn e\<close>, as its last
  event; when the block completes, it returns the block's snippets and logs no warning.
  In particular, when the resolver throws on every query, the result is the empty
  sequence, with at most one warning.
\<close>

theorem failures_caught_and_logged:
  "(case snd (tryBlock nodeIde nodeLang env fp cts cursorIndex ide) of
      Inl e \<Rightarrow>
        getDefinitionsFromLsp_passing nodeIde nodeLang env fp cts cursorIndex ide =
          (fst (tryBlock nodeIde nodeLang env fp cts cursorIndex ide) @ [Warn e], [])
        \<and> filter is_Warn (fst (getDefinitionsFromLsp_passing nodeIde nodeLang env fp cts cursorIndex ide))
            = [Warn e]
    | Inr snippets \<Rightarrow>
        getDefinitionsFromLsp_passing nodeIde nodeLang env fp cts cursorIndex ide =
          (fst (tryBlock nodeIde nodeLang env fp cts cursorIndex ide), snippets)
        \<and> filter is_Warn (fst (getDefinitionsFromLsp_passing nodeIde nodeLang env fp cts cursorIndex ide))
            = [])
   \<and> ((\<forall>q. executeGotoProvider env q = Inl e0) \<longrightarrow>
        snd (getDefinitionsFromLsp_passing nodeIde nodeLang env fp cts cursorIndex ide) = []
        \<and> length (filter is_Warn
              (fst (getDefinitionsFromLsp_passing nodeIde nodeLang env fp cts cursorIndex ide))) \<le> 1)"
proof -
  have outcome: "(case snd (tryBlock nodeIde nodeLang env fp cts cursorIndex ide) of
      Inl e \<Rightarrow>
        getDefinitionsFromLsp_passing nodeIde nodeLang env fp cts cursorIndex ide =
          (fst (tryBlock nodeIde nodeLang env fp cts cursorIndex ide) @ [Warn e], [])
        \<and> filter is_Warn (fst (getDefinitionsFromLsp_passing nodeIde nodeLang env fp cts cursorIndex ide))
            = [Warn e]
    | Inr snippets \<Rightarrow>
        getDefinitionsFromLsp_passing nodeIde nodeLang env fp cts cursorIndex ide =
          (fst (tryBlock nodeIde nodeLang env fp cts cursorIndex ide), snippets)
        \<and> filter is_Warn (fst (getDefinitionsFromLsp_passing nodeIde nodeLang env fp cts cursorIndex ide))
            = [])"
  proof -
    obtain t r where tb: "tryBlock nodeIde nodeLang env fp cts cursorIndex ide = (t, r)"
      by (cases "tryBlock nodeIde nodeLang env fp cts cursorIndex ide")
    have nw: "filter is_Warn t = []"
      using nw_tryBlock [of nodeIde nodeLang env fp cts cursorIndex ide] tb by simp
    show ?thesis
      by (cases r) (simp_all add: getDefinitionsFromLsp_passing_def tb nw)
  qed
  have warns: "length (filter is_Warn
      (fst (getDefinitionsFromLsp_passing nodeIde nodeLang env fp cts cursorIndex ide))) \<le> 1"
    by (simp add: fst_getDefinitionsFromLsp_passing split: sum.splits)
  have throws: "snd (getDefinitionsFromLsp_passing nodeIde nodeLang env fp cts cursorIndex ide) = []"
    if "\<forall>q. executeGotoProvider env q = Inl e0"
    using that by (intro entry_nothing getDefinitionsForNode_provider_throws [of env e0]) auto
  from outcome warns throws show ?thesis by blast
qed

text \<open>
  The theorem in the workspace whose resolver throws, with the cursor in \<^verbatim>\<open>foo(1, 2)\<close>:
  the first query raises, the warning is logged and nothing is returned.
\<close>

theorem failures_caught_and_logged_witness:
  "(\<forall>q. executeGotoProvider throwing_env q = Inl (Thrown ''provider down''))
   \<and> tryBlock (Some demo_ide) (Some demo_lang) throwing_env ''main.ts'' main_text 6 demo_ide
       = ([GotoProviderCall \<lparr>input_uri = ''main.ts'', input_line = 0, input_character = 4,
                              input_name = ExecuteDefinitionProvider\<rparr>],
          Inl (Thrown ''provider down''))
   \<and> getDefinitionsFromLsp_passing (Some demo_ide) (Some demo_lang) throwing_env
        ''main.ts'' main_text 6 demo_ide
       = ([GotoProviderCall \<lparr>input_uri = ''main.ts'', input_line = 0, input_character = 4,
                              input_name = ExecuteDefinitionProvider\<rparr>,
           Warn (Thrown ''provider down'')], [])"
proof -
  have t: "\<forall>q. executeGotoProvider throwing_env q = Inl (Thrown ''provider down'')"
    by (simp add: throwing_env_def)
  have b: "tryBlock (Some demo_ide) (Some demo_lang) throwing_env ''main.ts'' main_text 6 demo_ide
       = ([GotoProviderCall \<lparr>input_uri = ''main.ts'', input_line = 0, input_character = 4,
                              input_name = ExecuteDefinitionProvider\<rparr>],
          Inl (Thrown ''provider down''))"
    by code_simp
  from failures_caught_and_logged [of "Some demo_ide" "Some demo_lang" throwing_env "''main.ts''"
      main_text 6 demo_ide "Thrown ''provider down''"] t b
  show ?thesis by simp
qed

subsection \<open>The per-node call as written\<close>

text \<open>
  Without an IDE the per-node step raises a \<open>TypeError\<close> at its first read, so it
  returns no definition for any node, and the entry point as written returns the empty
  sequence for every input.
\<close>

lemma getDefinitionsForNode_without_ide:
  assumes "snd (getDefinitionsForNode env fp node None nla) = Inr ds"
  shows "ds = []"
  using assms
  by (auto simp: getDefinitionsForNode_def Let_def snd_bind_exec call_executeGotoProvider_def
      call_readRangeInFile_def ret_def split: if_splits sum.splits list.splits)

lemma getDefinitionsFromLsp_as_written_empty:
  "snd (getDefinitionsFromLsp env fp cts cursorIndex ide) = []"
  unfolding getDefinitionsFromLsp_def
  by (rule entry_nothing) (rule getDefinitionsForNode_without_ide)

text \<open>
  Claim C4, evaluated at its failing input. With the cursor in \<^verbatim>\<open>new Widget()\<close> the
  per-node step, given the IDE and the language, returns the class text behind the comment
  line \<^verbatim>\<open>// Widget:\<close>, as lines 114 to 121 build it. The entry point as written passes
  neither: the first read raises a \<open>TypeError\<close> and the result is empty. And when the
  per-node call is given both, lines 168 to 183 read the range again and return the
  snippet of \<^verbatim>\<open>Widget\<close> without the comment line.
\<close>

theorem class_comment_lost:
  "snd (getDefinitionsForNode demo_env ''main.ts'' new_Widget (Some demo_ide) (Some demo_lang))
     = Inr [withContents Widget_def (''// Widget:'' @ [nl] @ Widget_text),
            withContents Color_def Color_text]
   \<and> getDefinitionsFromLsp demo_env ''main.ts'' main_text 41 demo_ide
     = ([GotoProviderCall \<lparr>input_uri = ''main.ts'', input_line = 3, input_character = 10,
                            input_name = ExecuteDefinitionProvider\<rparr>,
         Warn TypeError], [])
   \<and> snd (getDefinitionsFromLsp_passing (Some demo_ide) (Some demo_lang) demo_env
            ''main.ts'' main_text 41 demo_ide)
     = [withScore (withContents Widget_def Widget_text),
        withScore (withContents Color_def Color_text)]"
  by code_simp


end
